theory Spec2Isabelle
  imports Main
begin

section \<open>The document text extraction service (fileExtractor/main.py)\<close>

text \<open>
  The service is one FastAPI module. Its handler \<open>extract_text\<close> stores an upload in a
  temporary file, hands the file's path to the Docling converter and returns the exported
  markdown; \<open>health_check\<close> returns a constant. Both are embedded as functions on an
  explicit world (file system and a trace of the calls the handler makes), with every
  statement that can raise modelled as a branch.
\<close>

subsection \<open>Strings, paths and the suffix of a file name\<close>

type_synonym path = string
type_synonym bytes = string

text \<open>
  \<open>str.rfind(c)\<close>: the highest index at which \<open>c\<close> occurs, \<open>-1\<close> when it does not occur.
\<close>

fun rfind :: "char \<Rightarrow> string \<Rightarrow> int" where
  "rfind c [] = - 1"
| "rfind c (x # xs) =
     (let r = rfind c xs in if 0 \<le> r then r + 1 else if x = c then 0 else - 1)"

text \<open>
  \<open>str.split(c)\<close> for a separator of one character: the pieces between the occurrences of
  \<open>c\<close>, empty pieces included; the result is never the empty list.
\<close>

fun split_sep :: "char \<Rightarrow> string \<Rightarrow> string list" where
  "split_sep c [] = [] # []"
| "split_sep c (x # xs) =
     (let r = split_sep c xs in if x = c then [] # r else (x # hd r) # tl r)"

text \<open>
  \<open>Path(s)\<close> is \<open>pathlib\<close>'s path of the standard library, here in its POSIX flavour, where
  \<open>'/'\<close> is the only separator. The parts of a path are the pieces of
  \<open>s.split('/')\<close> that are neither empty nor \<open>'.'\<close>; \<open>Path(s).name\<close> is the last part, or
  the empty string when there is none.
\<close>

definition path_parts :: "string \<Rightarrow> string list" where
  "path_parts s = filter (\<lambda>x. x \<noteq> [] \<and> x \<noteq> ''.'') (split_sep CHR ''/'' s)"

definition path_name :: "string \<Rightarrow> string" where
  "path_name s = (case path_parts s of [] \<Rightarrow> [] | _ # _ \<Rightarrow> last (path_parts s))"

text \<open>
  \<open>Path(s).suffix\<close>, as \<open>pathlib\<close> defines it up to Python 3.13:
  \<^verbatim>\<open>
  name = self.name
  i = name.rfind('.')
  if 0 < i < len(name) - 1: return name[i:]
  else: return ''
  \<close>
\<close>

definition path_suffix :: "string \<Rightarrow> string" where
  "path_suffix s =
     (let name = path_name s; i = rfind CHR ''.'' name
      in if 0 < i \<and> i < int (length name) - 1 then drop (nat i) name else [])"

text \<open>
  The specification's wording of the suffix, for comparison with \<open>path_suffix\<close>: everything
  from the last \<open>'.'\<close> of the string onward, the dot included, or the empty string when
  the string has no \<open>'.'\<close>.
\<close>

definition spec_suffix :: "string \<Rightarrow> string" where
  "spec_suffix s =
     (if CHR ''.'' \<in> set s then CHR ''.'' # rev (takeWhile (\<lambda>x. x \<noteq> CHR ''.'') (rev s))
      else [])"

subsection \<open>Requests, responses and the world\<close>

text \<open>
  \<open>UploadFile\<close>: \<open>filename\<close> and \<open>content_type\<close> are optional strings; \<open>body\<close> is what
  \<open>await file.read()\<close> yields.
\<close>

record upload =
  filename :: "string option"
  content_type :: "string option"
  body :: bytes

text \<open>The values of the JSON objects that the handlers return.\<close>

datatype json = JNull | JBool bool | JStr string

type_synonym dict = "(string \<times> json) list"

text \<open>
  A handler ends in one of three ways: it returns a dictionary, it raises
  \<open>HTTPException(status_code, detail)\<close>, or another exception leaves it (\<open>Raised\<close>, with the
  exception's \<open>str\<close>).
\<close>

datatype response = Return dict | HTTPException nat string | Raised string

text \<open>
  The world: the files that exist, with their contents, and the trace of the calls of
  the handler that the claims count.
\<close>

datatype event = Created path | Converted path | Unlinked path

record world =
  files :: "path \<rightharpoonup> bytes"
  events :: "event list"

text \<open>
  What lies outside the module. A statement that may raise an \<open>Exception\<close> is a value
  \<open>Some msg\<close> or \<open>Inl msg\<close>, \<open>msg\<close> being \<open>str(e)\<close>; signals that are not instances of
  \<open>Exception\<close> (cancellation, interpreter exit) are not part of the model.
  \<^item> \<open>named_temporary_file suffix\<close>: \<open>tempfile.NamedTemporaryFile(delete=False, suffix=suffix)\<close>
    raises, or creates an empty file and yields its path;
  \<^item> \<open>read_exn\<close>, \<open>write_exn\<close>, \<open>flush_exn\<close>: \<open>await file.read()\<close>, \<open>temp_file.write\<close>,
    \<open>temp_file.flush\<close>; \<open>close_exn\<close>: closing the file when the \<open>with\<close> block is left;
  \<^item> \<open>converter_exn\<close>: \<open>DocumentConverter()\<close>;
  \<^item> \<open>convert path fs\<close>: \<open>converter.convert(str(path))\<close>, an opaque call that reads the
    file system, may change it, and raises or yields a document;
  \<^item> \<open>export_to_markdown\<close>: \<open>result.document.export_to_markdown()\<close>;
  \<^item> \<open>exists_exn path\<close>: \<open>temp_file_path.exists()\<close>, which stats the path and, in
    \<open>pathlib\<close> up to Python 3.13, raises every \<open>OSError\<close> of the stat other than \<open>ENOENT\<close>,
    \<open>ENOTDIR\<close>, \<open>EBADF\<close> and \<open>ELOOP\<close> (so \<open>EACCES\<close> on a directory that may not be
    searched is raised); when it does not raise, it tells whether the file is there;
  \<^item> \<open>unlink_exn path\<close>: \<open>os.unlink(path)\<close> on an existing path.
\<close>

record 'doc env =
  named_temporary_file :: "string \<Rightarrow> string + path"
  read_exn :: "string option"
  write_exn :: "string option"
  flush_exn :: "string option"
  close_exn :: "string option"
  converter_exn :: "string option"
  convert :: "path \<Rightarrow> (path \<rightharpoonup> bytes) \<Rightarrow> (string + 'doc) \<times> (path \<rightharpoonup> bytes)"
  export_to_markdown :: "'doc \<Rightarrow> string + string"
  exists_exn :: "path \<Rightarrow> string option"
  unlink_exn :: "path \<Rightarrow> string option"

subsection \<open>The handler \<open>extract_text\<close>\<close>

text \<open>
  Lines 43 to 48, the body of the \<open>with\<close> block: read the upload, write it to the
  temporary file, flush.
\<close>

definition with_body :: "'doc env \<Rightarrow> upload \<Rightarrow> path \<Rightarrow> world \<Rightarrow> (string + unit) \<times> world" where
  "with_body env file p w =
     (case read_exn env of
        Some e \<Rightarrow> (Inl e, w)
      | None \<Rightarrow>
          (case write_exn env of
             Some e \<Rightarrow> (Inl e, w)
           | None \<Rightarrow>
               (let w' = w\<lparr>files := (files w)(p \<mapsto> body file)\<rparr>
                in case flush_exn env of
                     Some e \<Rightarrow> (Inl e, w')
                   | None \<Rightarrow> (Inr (), w'))))"

text \<open>
  Leaving the \<open>with\<close> block closes the file, whether the body raised or not; an exception
  of the close replaces the one of the body.
\<close>

definition with_exit :: "'doc env \<Rightarrow> (string + unit) \<times> world \<Rightarrow> (string + unit) \<times> world" where
  "with_exit env r = (case close_exn env of Some e \<Rightarrow> (Inl e, snd r) | None \<Rightarrow> r)"

text \<open>Lines 51 to 57: build the converter, convert the file, export the markdown.\<close>

definition convert_document :: "'doc env \<Rightarrow> path \<Rightarrow> world \<Rightarrow> (string + string) \<times> world" where
  "convert_document env p w =
     (case converter_exn env of
        Some e \<Rightarrow> (Inl e, w)
      | None \<Rightarrow>
          (let (r, fs) = convert env p (files w);
               w' = w\<lparr>files := fs, events := events w @ [Converted p]\<rparr>
           in case r of
                Inl e \<Rightarrow> (Inl e, w')
              | Inr doc \<Rightarrow>
                  (case export_to_markdown env doc of
                     Inl e \<Rightarrow> (Inl e, w')
                   | Inr text_content \<Rightarrow> (Inr text_content, w'))))"

text \<open>
  Lines 40 to 64, the \<open>try\<close> block. It yields the value of the variable \<open>temp_file\<close> when
  the block is left (\<open>None\<close> until \<open>NamedTemporaryFile\<close> has returned; the path of the file
  afterwards, \<open>temp_file_path\<close> being bound in the next statement), and either the
  exception raised or the dictionary returned.
\<close>

definition try_block :: "'doc env \<Rightarrow> upload \<Rightarrow> string \<Rightarrow> world \<Rightarrow> path option \<times> (string + dict) \<times> world" where
  "try_block env file name w =
     (let suffix = path_suffix name
      in case named_temporary_file env suffix of
           Inl e \<Rightarrow> (None, Inl e, w)
         | Inr p \<Rightarrow>
             (let w0 = w\<lparr>files := (files w)(p \<mapsto> []), events := events w @ [Created p]\<rparr>
              in case with_exit env (with_body env file p w0) of
                   (Inl e, w1) \<Rightarrow> (Some p, Inl e, w1)
                 | (Inr _, w1) \<Rightarrow>
                     (case convert_document env p w1 of
                        (Inl e, w2) \<Rightarrow> (Some p, Inl e, w2)
                      | (Inr text_content, w2) \<Rightarrow>
                          (Some p,
                           Inr [(''filename'', JStr name),
                                (''content_type'',
                                   (case content_type file of None \<Rightarrow> JNull | Some c \<Rightarrow> JStr c)),
                                (''text'', JStr text_content),
                                (''success'', JBool True)],
                           w2))))"

text \<open>Lines 66 to 70, the \<open>except Exception\<close> clause.\<close>

definition except_clause :: "string + dict \<Rightarrow> response" where
  "except_clause r =
     (case r of
        Inl e \<Rightarrow> HTTPException 500 (''Error processing document: '' @ e)
      | Inr d \<Rightarrow> Return d)"

text \<open>
  Lines 72 to 75, the \<open>finally\<close> clause, run with the pending outcome of the \<open>try\<close> and
  \<open>except\<close> clauses: \<open>if temp_file and temp_file_path.exists(): os.unlink(temp_file_path)\<close>.
  \<open>temp_file\<close> is \<open>None\<close> or a file object, which is true; \<open>exists()\<close> is called only then,
  and \<open>os.unlink\<close> only when it has returned true. An exception raised here, by \<open>exists()\<close>
  or by \<open>os.unlink\<close>, replaces the pending return value or exception.
\<close>

definition finally_clause :: "'doc env \<Rightarrow> path option \<Rightarrow> response \<Rightarrow> world \<Rightarrow> response \<times> world" where
  "finally_clause env temp_file pending w =
     (case temp_file of
        None \<Rightarrow> (pending, w)
      | Some p \<Rightarrow>
          (case exists_exn env p of
             Some e \<Rightarrow> (Raised e, w)
           | None \<Rightarrow>
               (if files w p \<noteq> None then
                  (case unlink_exn env p of
                     Some e \<Rightarrow> (Raised e, w\<lparr>events := events w @ [Unlinked p]\<rparr>)
                   | None \<Rightarrow>
                       (pending,
                        w\<lparr>files := (files w)(p := None), events := events w @ [Unlinked p]\<rparr>))
                else (pending, w))))"

text \<open>
  The handler. \<open>not file.filename\<close> holds for \<open>None\<close> and for the empty string.
\<close>

definition extract_text :: "'doc env \<Rightarrow> upload \<Rightarrow> world \<Rightarrow> response \<times> world" where
  "extract_text env file w =
     (case filename file of
        None \<Rightarrow> (HTTPException 400 ''No file provided'', w)
      | Some name \<Rightarrow>
          (if name = [] then (HTTPException 400 ''No file provided'', w)
           else
             (let (temp_file, r, w1) = try_block env file name w
              in finally_clause env temp_file (except_clause r) w1)))"

subsection \<open>The handler \<open>health_check\<close>\<close>

text \<open>Lines 77 to 80. The handler takes the world only to say that it leaves it alone.\<close>

definition health_check :: "world \<Rightarrow> response \<times> world" where
  "health_check w =
     (Return [(''status'', JStr ''healthy''), (''service'', JStr ''document-text-extraction'')], w)"

subsection \<open>Concrete requests and environments\<close>

text \<open>
  The upload of the specification's scenario A, an upload without a file name, two
  worlds, and environments in which single statements fail. They are the inputs at which
  the theorems below are instantiated.
\<close>

definition tmp_txt :: path where
  "tmp_txt = ''/tmp/tmpk3_x9a2b.txt''"

definition note_upload :: upload where
  "note_upload = \<lparr>filename = Some ''note.txt'', content_type = Some ''text/plain'', body = ''hello''\<rparr>"

definition no_file_upload :: upload where
  "no_file_upload = \<lparr>filename = Some [], content_type = None, body = []\<rparr>"

definition archive_upload :: upload where
  "archive_upload =
     \<lparr>filename = Some ''v1.2/archive.tar.gz'', content_type = None, body = ''xyz''\<rparr>"

definition note_result :: dict where
  "note_result =
     [(''filename'', JStr ''note.txt''), (''content_type'', JStr ''text/plain''),
      (''text'', JStr ''hello''), (''success'', JBool True)]"

definition empty_world :: world where
  "empty_world = \<lparr>files = Map.empty, events = []\<rparr>"

definition busy_world :: world where
  "busy_world =
     \<lparr>files = [''/srv/data.bin'' \<mapsto> ''abc''],
      events = [Created ''/tmp/old'', Unlinked ''/tmp/old'']\<rparr>"

text \<open>
  An engine that passes plain text through unchanged: a function of the contents of the
  file and of the suffix of its path.
\<close>

definition plain_engine :: "bytes option \<Rightarrow> string \<Rightarrow> string + string" where
  "plain_engine contents suffix =
     (case contents of None \<Rightarrow> Inl ''File not found'' | Some b \<Rightarrow> Inr b)"

definition env_plain :: "string env" where
  "env_plain =
     \<lparr>named_temporary_file = (\<lambda>suffix. Inr (''/tmp/tmpk3_x9a2b'' @ suffix)),
      read_exn = None, write_exn = None, flush_exn = None, close_exn = None,
      converter_exn = None,
      convert = (\<lambda>p fs. (plain_engine (fs p) (path_suffix p), fs)),
      export_to_markdown = Inr,
      exists_exn = (\<lambda>p. None),
      unlink_exn = (\<lambda>p. None)\<rparr>"

text \<open>
  \<open>os.unlink\<close> raises \<open>PermissionError\<close>, as it does when the directory of the file does
  not allow writing.
\<close>

definition env_unlink_denied :: "string env" where
  "env_unlink_denied = env_plain\<lparr>unlink_exn := (\<lambda>p. Some ''[Errno 13] Permission denied'')\<rparr>"

text \<open>
  \<open>temp_file_path.exists()\<close> raises \<open>PermissionError\<close>, as it does when the directory of the
  file may not be searched.
\<close>

definition env_stat_denied :: "string env" where
  "env_stat_denied = env_plain\<lparr>exists_exn := (\<lambda>p. Some ''[Errno 13] Permission denied'')\<rparr>"

text \<open>The file is gone when the conversion returns.\<close>

definition env_engine_removes :: "string env" where
  "env_engine_removes =
     env_plain\<lparr>convert := (\<lambda>p fs. (plain_engine (fs p) (path_suffix p), fs(p := None)))\<rparr>"

definition env_engine_fails :: "string env" where
  "env_engine_fails = env_plain\<lparr>convert := (\<lambda>p fs. (Inl ''File format not allowed'', fs))\<rparr>"

definition env_fails_twice :: "string env" where
  "env_fails_twice =
     env_engine_fails\<lparr>unlink_exn := (\<lambda>p. Some ''[Errno 13] Permission denied'')\<rparr>"

definition env_no_space :: "string env" where
  "env_no_space =
     env_plain\<lparr>named_temporary_file := (\<lambda>suffix. Inl ''[Errno 28] No space left on device'')\<rparr>"

definition env_other_dir :: "string env" where
  "env_other_dir =
     env_plain\<lparr>named_temporary_file := (\<lambda>suffix. Inr (''/var/tmp/tmp8n_q2zr7'' @ suffix))\<rparr>"

section \<open>Properties of the suffix\<close>

lemma rfind_absent: "c \<notin> set s \<Longrightarrow> rfind c s = - 1"
  by (induction s) (auto simp: Let_def)

lemma rfind_upper: "rfind c s < int (length s)"
  by (induction s) (auto simp: Let_def)

lemma rfind_nonneg: "c \<in> set s \<Longrightarrow> 0 \<le> rfind c s"
  by (induction s) (auto simp: Let_def)

lemma rfind_append: "c \<notin> set ys \<Longrightarrow> rfind c (xs @ c # ys) = int (length xs)"
  by (induction xs) (simp_all add: Let_def rfind_absent)

text \<open>From the index that \<open>rfind\<close> yields onward, a string is its last \<open>c\<close> and what follows it.\<close>

lemma rfind_drop:
  "c \<in> set s \<Longrightarrow> drop (nat (rfind c s)) s = c # rev (takeWhile (\<lambda>x. x \<noteq> c) (rev s))"
proof (induction s)
  case Nil
  then show ?case by simp
next
  case (Cons x xs)
  show ?case
  proof (cases "c \<in> set xs")
    case True
    with Cons.IH have ih: "drop (nat (rfind c xs)) xs = c # rev (takeWhile (\<lambda>x. x \<noteq> c) (rev xs))"
      by simp
    from True have nn: "0 \<le> rfind c xs" by (rule rfind_nonneg)
    from True have tw: "takeWhile (\<lambda>x. x \<noteq> c) (rev xs @ [x]) = takeWhile (\<lambda>x. x \<noteq> c) (rev xs)"
      by (simp add: takeWhile_append1)
    from nn have "nat (rfind c xs + 1) = Suc (nat (rfind c xs))" by simp
    with nn ih tw show ?thesis by (simp add: Let_def)
  next
    case False
    with Cons.prems have xc: "x = c" by simp
    from False have r: "rfind c xs = - 1" by (rule rfind_absent)
    from False have "\<And>y. y \<in> set (rev xs) \<Longrightarrow> y \<noteq> c" by auto
    then have "takeWhile (\<lambda>x. x \<noteq> c) (rev xs @ [x]) = rev xs @ takeWhile (\<lambda>x. x \<noteq> c) [x]"
      by (rule takeWhile_append2)
    with xc r show ?thesis by (simp add: Let_def)
  qed
qed

lemma spec_suffix_drop:
  "CHR ''.'' \<in> set s \<Longrightarrow> spec_suffix s = drop (nat (rfind CHR ''.'' s)) s"
  by (simp add: spec_suffix_def rfind_drop)

lemma split_sep_nonempty: "split_sep c s \<noteq> []"
  by (induction s) (auto simp: Let_def)

lemma split_sep_no_sep: "c \<notin> set s \<Longrightarrow> split_sep c s = [s]"
  by (induction s) (auto simp: Let_def)

lemma split_sep_append: "split_sep c (xs @ c # ys) = split_sep c xs @ split_sep c ys"
proof (induction xs)
  case Nil
  show ?case by (simp add: Let_def)
next
  case (Cons x xs)
  have ne: "split_sep c xs \<noteq> []" by (rule split_sep_nonempty)
  show ?case
  proof (cases "x = c")
    case True
    with Cons show ?thesis by (simp add: Let_def)
  next
    case False
    with Cons ne show ?thesis by (simp add: Let_def)
  qed
qed

lemma split_sep_pieces: "x \<in> set (split_sep c s) \<Longrightarrow> c \<notin> set x"
proof (induction s arbitrary: x)
  case Nil
  then show ?case by simp
next
  case (Cons y ys)
  have ne: "split_sep c ys \<noteq> []" by (rule split_sep_nonempty)
  show ?case
  proof (cases "y = c")
    case True
    with Cons show ?thesis by (auto simp: Let_def)
  next
    case False
    from Cons.prems False have "x = y # hd (split_sep c ys) \<or> x \<in> set (tl (split_sep c ys))"
      by (simp add: Let_def)
    then show ?thesis
    proof
      assume "x = y # hd (split_sep c ys)"
      moreover from ne have "hd (split_sep c ys) \<in> set (split_sep c ys)" by simp
      ultimately show ?thesis using Cons.IH False by auto
    next
      assume "x \<in> set (tl (split_sep c ys))"
      with ne have "x \<in> set (split_sep c ys)" by (meson list.set_sel(2))
      then show ?thesis by (rule Cons.IH)
    qed
  qed
qed

lemma path_name_last: "path_parts s \<noteq> [] \<Longrightarrow> path_name s = last (path_parts s)"
  by (cases "path_parts s") (simp_all add: path_name_def)

lemma path_name_simple: "CHR ''/'' \<notin> set s \<Longrightarrow> s \<noteq> ''.'' \<Longrightarrow> path_name s = s"
  by (cases "s = []") (simp_all add: path_name_def path_parts_def split_sep_no_sep)

lemma path_name_no_sep: "CHR ''/'' \<notin> set (path_name s)"
proof (cases "path_parts s = []")
  case True
  then show ?thesis by (simp add: path_name_def)
next
  case False
  then have "path_name s = last (path_parts s)" by (rule path_name_last)
  moreover from False have "last (path_parts s) \<in> set (path_parts s)" by simp
  ultimately have "path_name s \<in> set (split_sep CHR ''/'' s)"
    by (simp add: path_parts_def)
  then show ?thesis by (rule split_sep_pieces)
qed

lemma path_name_last_component:
  assumes "CHR ''/'' \<notin> set c" and "c \<noteq> []" and "c \<noteq> ''.''"
  shows "path_name (dir @ CHR ''/'' # c) = c"
proof -
  from assms have "path_parts (dir @ CHR ''/'' # c) = path_parts dir @ [c]"
    by (simp add: path_parts_def split_sep_append split_sep_no_sep)
  then show ?thesis by (simp add: path_name_last)
qed

lemma path_name_trailing_sep: "path_name (dir @ ''/'') = path_name dir"
proof -
  have "path_parts (dir @ CHR ''/'' # []) = path_parts dir"
    unfolding path_parts_def split_sep_append by simp
  then show ?thesis by (simp add: path_name_def split: list.splits)
qed

lemma path_name_trailing_dot: "path_name (dir @ ''/.'') = path_name dir"
proof -
  have "path_parts (dir @ CHR ''/'' # ''.'') = path_parts dir"
    unfolding path_parts_def split_sep_append by (simp add: Let_def)
  then show ?thesis by (simp add: path_name_def split: list.splits)
qed

lemma path_name_dot: "path_name ''.'' = []"
  by (simp add: path_name_def path_parts_def Let_def)

text \<open>
  \<open>path_suffix\<close> in the specification's terms: the wording holds on the final component
  of the path, and only when the last dot is neither its first nor its last character.
\<close>

lemma path_suffix_last_dot:
  "path_suffix fn =
     (let n = path_name fn; s = spec_suffix n in if length s < 2 \<or> s = n then [] else s)"
proof (cases "CHR ''.'' \<in> set (path_name fn)")
  case False
  then show ?thesis
    by (simp add: path_suffix_def spec_suffix_def rfind_absent Let_def)
next
  case True
  let ?n = "path_name fn"
  let ?i = "rfind CHR ''.'' ?n"
  from True have b: "0 \<le> ?i" "?i < int (length ?n)" by (simp_all add: rfind_upper rfind_nonneg)
  from True have s: "spec_suffix ?n = drop (nat ?i) ?n" by (rule spec_suffix_drop)
  from b have l: "length (drop (nat ?i) ?n) = length ?n - nat ?i" by simp
  have e: "drop (nat ?i) ?n = ?n \<longleftrightarrow> ?i = 0"
  proof
    assume "drop (nat ?i) ?n = ?n"
    then have "length (drop (nat ?i) ?n) = length ?n" by simp
    with b show "?i = 0" by simp
  next
    assume "?i = 0"
    then show "drop (nat ?i) ?n = ?n" by simp
  qed
  show ?thesis
    unfolding path_suffix_def Let_def s e using b l by auto
qed

lemma path_suffix_shape:
  "path_suffix s = [] \<or>
   (\<exists>ext. path_suffix s = CHR ''.'' # ext \<and> ext \<noteq> [] \<and> CHR ''.'' \<notin> set ext \<and> CHR ''/'' \<notin> set ext)"
proof (cases "path_suffix s = []")
  case True
  then show ?thesis by simp
next
  case False
  let ?n = "path_name s"
  let ?ext = "rev (takeWhile (\<lambda>x. x \<noteq> CHR ''.'') (rev ?n))"
  from False have ps: "path_suffix s = spec_suffix ?n" and len: "2 \<le> length (spec_suffix ?n)"
    by (auto simp: path_suffix_last_dot Let_def split: if_splits)
  from len have dot: "CHR ''.'' \<in> set ?n" by (auto simp: spec_suffix_def split: if_splits)
  then have sp: "spec_suffix ?n = CHR ''.'' # ?ext" by (simp add: spec_suffix_def)
  from len sp have "?ext \<noteq> []" by auto
  moreover have "CHR ''.'' \<notin> set ?ext" by (auto dest: set_takeWhileD)
  moreover have "set ?ext \<subseteq> set ?n" by (auto dest: set_takeWhileD)
  with path_name_no_sep [of s] have "CHR ''/'' \<notin> set ?ext" by blast
  ultimately show ?thesis using ps sp by simp
qed

text \<open>
  \<open>tempfile\<close> names a file \<open>dir/stem + suffix\<close>, the stem being \<open>tmp\<close> and eight characters
  out of \<open>a-z0-9_\<close>. Such a path has the suffix that was asked for, whenever that suffix is
  one that \<open>path_suffix\<close> yields.
\<close>

lemma temp_name_keeps_suffix:
  assumes "stem \<noteq> []" and "CHR ''.'' \<notin> set stem" and "CHR ''/'' \<notin> set stem"
  shows "path_suffix (dir @ CHR ''/'' # stem @ path_suffix name) = path_suffix name"
proof -
  let ?s = "path_suffix name"
  from path_suffix_shape [of name] show ?thesis
  proof
    assume e: "?s = []"
    from assms have "path_name (dir @ CHR ''/'' # stem) = stem"
      by (intro path_name_last_component) auto
    with assms e show ?thesis
      by (simp add: path_suffix_def [of "dir @ CHR ''/'' # stem"] rfind_absent)
  next
    assume "\<exists>ext. ?s = CHR ''.'' # ext \<and> ext \<noteq> [] \<and> CHR ''.'' \<notin> set ext \<and> CHR ''/'' \<notin> set ext"
    then obtain ext where x: "?s = CHR ''.'' # ext" "ext \<noteq> []" "CHR ''.'' \<notin> set ext" "CHR ''/'' \<notin> set ext"
      by blast
    let ?c = "stem @ CHR ''.'' # ext"
    from assms(1) have "?c \<noteq> ''.''" by (cases stem) simp_all
    with assms x have "path_name (dir @ CHR ''/'' # ?c) = ?c"
      by (intro path_name_last_component) auto
    moreover from x have "rfind CHR ''.'' ?c = int (length stem)" by (simp add: rfind_append)
    ultimately have "path_suffix (dir @ CHR ''/'' # ?c) = CHR ''.'' # ext"
      using assms x by (simp add: path_suffix_def)
    with x show ?thesis by simp
  qed
qed

section \<open>Properties of the handler\<close>

lemmas try_defs = try_block_def with_exit_def with_body_def convert_document_def

text \<open>With a file name, the handler is the \<open>try\<close> block followed by the two clauses.\<close>

lemma extract_text_named:
  "filename file = Some name \<Longrightarrow> name \<noteq> [] \<Longrightarrow> try_block env file name w = (tf, r, w1) \<Longrightarrow>
     extract_text env file w = finally_clause env tf (except_clause r) w1"
  by (simp add: extract_text_def)

lemma try_block_temp_file:
  "try_block env file name w = (tf, r, w1) \<Longrightarrow>
     (case named_temporary_file env (path_suffix name) of
        Inl e \<Rightarrow> tf = None \<and> r = Inl e \<and> w1 = w
      | Inr p \<Rightarrow> tf = Some p)"
  by (auto simp: try_block_def Let_def split: sum.splits prod.splits)

lemma with_events:
  "with_exit env (with_body env file p w) = (r, w1) \<Longrightarrow> events w1 = events w"
  by (auto simp: with_exit_def with_body_def Let_def split: option.splits)

lemma convert_events:
  "convert_document env p w = (r, w1) \<Longrightarrow>
     events w1 = events w \<or> events w1 = events w @ [Converted p]"
  by (auto simp: convert_document_def Let_def split: option.splits prod.splits sum.splits)

lemma try_block_events:
  "try_block env file name w = (Some p, r, w1) \<Longrightarrow>
     events w1 = events w @ [Created p] \<or> events w1 = events w @ [Created p, Converted p]"
  unfolding try_block_def Let_def
  by (auto split: sum.splits prod.splits dest!: with_events convert_events)

text \<open>
  The \<open>try\<close> block raises exactly when one of its statements does: the creation of the
  file, the close, the read, the write, the flush, the construction of the converter, the
  conversion or the export.
\<close>

lemma try_block_raises_iff:
  "fst (snd (try_block env file name w)) = Inl e \<longleftrightarrow>
     named_temporary_file env (path_suffix name) = Inl e \<or>
     (\<exists>p. named_temporary_file env (path_suffix name) = Inr p \<and>
        (close_exn env = Some e \<or>
         close_exn env = None \<and>
           (read_exn env = Some e \<or>
            read_exn env = None \<and>
              (write_exn env = Some e \<or>
               write_exn env = None \<and>
                 (flush_exn env = Some e \<or>
                  flush_exn env = None \<and>
                    (converter_exn env = Some e \<or>
                     converter_exn env = None \<and>
                       (fst (convert env p ((files w)(p \<mapsto> body file))) = Inl e \<or>
                        (\<exists>doc. fst (convert env p ((files w)(p \<mapsto> body file))) = Inr doc \<and>
                           export_to_markdown env doc = Inl e))))))))"
  unfolding try_defs Let_def
  by (auto split: sum.splits prod.splits option.splits)

text \<open>What the \<open>try\<close> block returns is the full dictionary, its text being the export.\<close>

lemma try_block_text:
  assumes "try_block env file name w = (tf, Inr d, w1)"
  shows "\<exists>p doc t. named_temporary_file env (path_suffix name) = Inr p \<and>
           fst (convert env p ((files w)(p \<mapsto> body file))) = Inr doc \<and>
           export_to_markdown env doc = Inr t \<and>
           d = [(''filename'', JStr name),
                (''content_type'', (case content_type file of None \<Rightarrow> JNull | Some c \<Rightarrow> JStr c)),
                (''text'', JStr t), (''success'', JBool True)]"
  using assms unfolding try_defs Let_def
  by (auto split: sum.splits prod.splits option.splits)

lemma finally_events:
  "events (snd (finally_clause env tf pending w)) =
     events w @
       (case tf of
          None \<Rightarrow> []
        | Some p \<Rightarrow> if exists_exn env p = None \<and> files w p \<noteq> None then [Unlinked p] else [])"
  by (auto simp: finally_clause_def split: option.splits)

lemma finally_events_new:
  "finally_clause env tf pending w1 = (resp, w') \<Longrightarrow>
     events w' =
       events w1 @
         (case tf of
            None \<Rightarrow> []
          | Some p \<Rightarrow> if exists_exn env p = None \<and> files w1 p \<noteq> None then [Unlinked p] else [])"
  using finally_events [of env tf pending w1] by simp

lemma finally_response:
  "fst (finally_clause env tf pending w) =
     (case tf of
        None \<Rightarrow> pending
      | Some p \<Rightarrow>
          (case exists_exn env p of
             Some e \<Rightarrow> Raised e
           | None \<Rightarrow>
               if files w p \<noteq> None
               then (case unlink_exn env p of Some e \<Rightarrow> Raised e | None \<Rightarrow> pending)
               else pending))"
  by (auto simp: finally_clause_def split: option.splits)

lemma finally_files:
  "files (snd (finally_clause env tf pending w)) =
     (case tf of
        None \<Rightarrow> files w
      | Some p \<Rightarrow>
          if exists_exn env p = None \<and> files w p \<noteq> None \<and> unlink_exn env p = None
          then (files w)(p := None) else files w)"
  by (auto simp: finally_clause_def split: option.splits)

text \<open>
  The temporary file is there when the \<open>try\<close> block is left, unless the conversion
  removed it.
\<close>

lemma try_block_keeps_file:
  assumes "named_temporary_file env (path_suffix name) = Inr p"
    and "\<forall>fs. fs p \<noteq> None \<longrightarrow> snd (convert env p fs) p \<noteq> None"
  shows "files (snd (snd (try_block env file name w))) p \<noteq> None"
proof -
  have "snd (convert env p ((files w)(p \<mapsto> body file))) p \<noteq> None"
    using assms(2) by simp
  with assms(1) show ?thesis
    unfolding try_defs Let_def
    by (auto split: sum.splits prod.splits option.splits)
qed

text \<open>
  The files that the handler creates: the one that \<open>NamedTemporaryFile\<close> yields for the
  suffix of the file name, and no other.
\<close>

lemma created_iff:
  assumes "filename file = Some name" and "name \<noteq> []"
  shows "Created p \<in> set (drop (length (events w)) (events (snd (extract_text env file w)))) \<longleftrightarrow>
           named_temporary_file env (path_suffix name) = Inr p"
proof -
  obtain tf r w1 where t: "try_block env file name w = (tf, r, w1)"
    by (cases "try_block env file name w") auto
  from assms t have e: "extract_text env file w = finally_clause env tf (except_clause r) w1"
    by (rule extract_text_named)
  show ?thesis
  proof (cases "named_temporary_file env (path_suffix name)")
    case (Inl x)
    with try_block_temp_file [OF t] have "tf = None" "w1 = w" by simp_all
    with Inl show ?thesis unfolding e by (simp add: finally_events)
  next
    case (Inr q)
    with try_block_temp_file [OF t] have tf: "tf = Some q" by simp
    from t tf have "events w1 = events w @ [Created q] \<or> events w1 = events w @ [Created q, Converted q]"
      by (simp add: try_block_events)
    with tf Inr show ?thesis unfolding e by (auto simp: finally_events)
  qed
qed

text \<open>A dictionary that the handler returns is one that the \<open>try\<close> block returned.\<close>

lemma returned_from_try:
  assumes "extract_text env file w = (Return d, w')"
  shows "\<exists>name tf w1. filename file = Some name \<and> name \<noteq> [] \<and>
           try_block env file name w = (tf, Inr d, w1)"
proof -
  from assms obtain name where n: "filename file = Some name" "name \<noteq> []"
    by (auto simp: extract_text_def split: option.splits if_splits)
  obtain tf r w1 where t: "try_block env file name w = (tf, r, w1)"
    by (cases "try_block env file name w") auto
  from assms n t have "fst (finally_clause env tf (except_clause r) w1) = Return d"
    by (simp add: extract_text_named)
  then have "except_clause r = Return d"
    by (auto simp: finally_response split: option.splits if_splits)
  then have "r = Inr d" by (auto simp: except_clause_def split: sum.splits)
  with n t show ?thesis by blast
qed

subsection \<open>The handler on the concrete requests\<close>

lemmas env_defs = env_plain_def plain_engine_def

lemma note_named: "filename note_upload = Some ''note.txt''" "''note.txt'' \<noteq> []"
  by (simp_all add: note_upload_def)

lemma suffix_note: "path_suffix ''note.txt'' = ''.txt''"
  by (simp add: path_suffix_def path_name_def path_parts_def Let_def)

lemma try_plain:
  "try_block env_plain note_upload ''note.txt'' empty_world =
     (Some tmp_txt, Inr note_result,
      \<lparr>files = [tmp_txt \<mapsto> ''hello''], events = [Created tmp_txt, Converted tmp_txt]\<rparr>)"
  by (simp add: try_defs Let_def suffix_note env_defs note_upload_def empty_world_def tmp_txt_def
      note_result_def)

lemma try_unlink_denied:
  "try_block env_unlink_denied note_upload ''note.txt'' empty_world =
     (Some tmp_txt, Inr note_result,
      \<lparr>files = [tmp_txt \<mapsto> ''hello''], events = [Created tmp_txt, Converted tmp_txt]\<rparr>)"
  by (simp add: try_defs Let_def suffix_note env_defs env_unlink_denied_def note_upload_def empty_world_def tmp_txt_def
      note_result_def)

lemma try_engine_removes:
  "try_block env_engine_removes note_upload ''note.txt'' empty_world =
     (Some tmp_txt, Inr note_result,
      \<lparr>files = Map.empty, events = [Created tmp_txt, Converted tmp_txt]\<rparr>)"
  by (simp add: try_defs Let_def suffix_note env_defs env_engine_removes_def note_upload_def empty_world_def tmp_txt_def
      note_result_def)

lemma try_engine_fails:
  "try_block env_engine_fails note_upload ''note.txt'' empty_world =
     (Some tmp_txt, Inl ''File format not allowed'',
      \<lparr>files = [tmp_txt \<mapsto> ''hello''], events = [Created tmp_txt, Converted tmp_txt]\<rparr>)"
  by (simp add: try_defs Let_def suffix_note env_defs env_engine_fails_def note_upload_def empty_world_def tmp_txt_def)

lemma try_fails_twice:
  "try_block env_fails_twice note_upload ''note.txt'' empty_world =
     (Some tmp_txt, Inl ''File format not allowed'',
      \<lparr>files = [tmp_txt \<mapsto> ''hello''], events = [Created tmp_txt, Converted tmp_txt]\<rparr>)"
  by (simp add: try_defs Let_def suffix_note env_defs env_fails_twice_def env_engine_fails_def note_upload_def empty_world_def tmp_txt_def)

lemma try_no_space:
  "try_block env_no_space note_upload ''note.txt'' empty_world =
     (None, Inl ''[Errno 28] No space left on device'', empty_world)"
  by (simp add: try_defs Let_def suffix_note env_defs env_no_space_def note_upload_def empty_world_def)

lemma try_other_dir:
  "try_block env_other_dir note_upload ''note.txt'' busy_world =
     (Some ''/var/tmp/tmp8n_q2zr7.txt'', Inr note_result,
      \<lparr>files = [''/srv/data.bin'' \<mapsto> ''abc'', ''/var/tmp/tmp8n_q2zr7.txt'' \<mapsto> ''hello''],
       events = [Created ''/tmp/old'', Unlinked ''/tmp/old'',
                 Created ''/var/tmp/tmp8n_q2zr7.txt'', Converted ''/var/tmp/tmp8n_q2zr7.txt'']\<rparr>)"
  by (simp add: try_defs Let_def suffix_note env_defs env_other_dir_def note_upload_def busy_world_def note_result_def)

lemma run_plain:
  "extract_text env_plain note_upload empty_world =
     (Return note_result,
      \<lparr>files = Map.empty, events = [Created tmp_txt, Converted tmp_txt, Unlinked tmp_txt]\<rparr>)"
  unfolding extract_text_named [OF note_named try_plain]
  by (simp add: finally_clause_def except_clause_def env_defs)

lemma run_unlink_denied:
  "extract_text env_unlink_denied note_upload empty_world =
     (Raised ''[Errno 13] Permission denied'',
      \<lparr>files = [tmp_txt \<mapsto> ''hello''],
       events = [Created tmp_txt, Converted tmp_txt, Unlinked tmp_txt]\<rparr>)"
  unfolding extract_text_named [OF note_named try_unlink_denied]
  by (simp add: finally_clause_def except_clause_def env_defs env_unlink_denied_def)

lemma try_stat_denied:
  "try_block env_stat_denied note_upload ''note.txt'' empty_world =
     (Some tmp_txt, Inr note_result,
      \<lparr>files = [tmp_txt \<mapsto> ''hello''], events = [Created tmp_txt, Converted tmp_txt]\<rparr>)"
  by (simp add: try_defs Let_def suffix_note env_defs env_stat_denied_def note_upload_def
      empty_world_def tmp_txt_def note_result_def)

lemma run_stat_denied:
  "extract_text env_stat_denied note_upload empty_world =
     (Raised ''[Errno 13] Permission denied'',
      \<lparr>files = [tmp_txt \<mapsto> ''hello''], events = [Created tmp_txt, Converted tmp_txt]\<rparr>)"
  unfolding extract_text_named [OF note_named try_stat_denied]
  by (simp add: finally_clause_def except_clause_def env_defs env_stat_denied_def)

lemma run_engine_removes:
  "extract_text env_engine_removes note_upload empty_world =
     (Return note_result, \<lparr>files = Map.empty, events = [Created tmp_txt, Converted tmp_txt]\<rparr>)"
  unfolding extract_text_named [OF note_named try_engine_removes]
  by (simp add: finally_clause_def except_clause_def env_defs env_engine_removes_def)

lemma run_fails_twice:
  "extract_text env_fails_twice note_upload empty_world =
     (Raised ''[Errno 13] Permission denied'',
      \<lparr>files = [tmp_txt \<mapsto> ''hello''],
       events = [Created tmp_txt, Converted tmp_txt, Unlinked tmp_txt]\<rparr>)"
  unfolding extract_text_named [OF note_named try_fails_twice]
  by (simp add: finally_clause_def except_clause_def env_defs env_fails_twice_def env_engine_fails_def)

lemma run_other_dir:
  "extract_text env_other_dir note_upload busy_world =
     (Return note_result,
      \<lparr>files = [''/srv/data.bin'' \<mapsto> ''abc''],
       events = [Created ''/tmp/old'', Unlinked ''/tmp/old'',
                 Created ''/var/tmp/tmp8n_q2zr7.txt'', Converted ''/var/tmp/tmp8n_q2zr7.txt'',
                 Unlinked ''/var/tmp/tmp8n_q2zr7.txt'']\<rparr>)"
  unfolding extract_text_named [OF note_named try_other_dir]
  by (simp add: finally_clause_def except_clause_def env_defs env_other_dir_def fun_upd_twist)

section \<open>The claims\<close>

subsection \<open>C1: cleanup of the temporary file\<close>

text \<open>
  C1, as stated: whenever a request creates a temporary file, exactly one deletion is
  attempted and the file does not exist after the response. This fails at three inputs.
  When \<open>os.unlink\<close> raises, the file created for \<open>note.txt\<close> is still there, with its
  contents, after the handler has ended. When the path is gone before the cleanup (here
  the conversion removed it), \<open>exists()\<close> is false and no deletion is attempted at all.
  When \<open>exists()\<close> itself raises, no deletion is attempted and the file stays.
\<close>

theorem temp_file_survives_failed_unlink:
  "Created tmp_txt \<in> set (events (snd (extract_text env_unlink_denied note_upload empty_world)))
   \<and> files (snd (extract_text env_unlink_denied note_upload empty_world)) tmp_txt = Some ''hello''
   \<and> Created tmp_txt \<in> set (events (snd (extract_text env_engine_removes note_upload empty_world)))
   \<and> count_list (events (snd (extract_text env_engine_removes note_upload empty_world)))
        (Unlinked tmp_txt) = 0
   \<and> Created tmp_txt \<in> set (events (snd (extract_text env_stat_denied note_upload empty_world)))
   \<and> count_list (events (snd (extract_text env_stat_denied note_upload empty_world)))
        (Unlinked tmp_txt) = 0
   \<and> files (snd (extract_text env_stat_denied note_upload empty_world)) tmp_txt = Some ''hello''"
  by (simp add: run_unlink_denied run_engine_removes run_stat_denied)

text \<open>
  C1, amended: for every request for which \<open>NamedTemporaryFile\<close> creates a temporary file
  \<open>p\<close>, on every way out of the \<open>try\<close> block (a returned dictionary or an exception), the
  handler attempts the deletion of \<open>p\<close> exactly once if \<open>exists()\<close> returns and \<open>p\<close> is still
  there when the cleanup runs, and not at all if \<open>p\<close> is gone or \<open>exists()\<close> raises; after
  the handler \<open>p\<close> does not exist, unless it existed at the cleanup and \<open>exists()\<close> or
  \<open>os.unlink\<close> raised. The world in which the cleanup runs is the one that the \<open>try\<close> block
  leaves, \<open>snd (snd (try_block env file name w))\<close>; in it \<open>p\<close> is still there whenever the
  conversion does not remove the file it is given.
\<close>

theorem cleanup_of_created_file:
  assumes "filename file = Some name" and "name \<noteq> []"
    and "named_temporary_file env (path_suffix name) = Inr p"
  shows "count_list (events (snd (extract_text env file w))) (Unlinked p) =
           count_list (events w) (Unlinked p) +
             (if exists_exn env p = None \<and> files (snd (snd (try_block env file name w))) p \<noteq> None
              then 1 else 0)
       \<and> (files (snd (extract_text env file w)) p = None \<longleftrightarrow>
            files (snd (snd (try_block env file name w))) p = None \<or>
            (exists_exn env p = None \<and> unlink_exn env p = None))
       \<and> ((\<forall>fs. fs p \<noteq> None \<longrightarrow> snd (convert env p fs) p \<noteq> None) \<longrightarrow>
            files (snd (snd (try_block env file name w))) p \<noteq> None)"
proof -
  note k = try_block_keeps_file [OF assms(3), of "file" w]
  obtain tf r w1 where t: "try_block env file name w = (tf, r, w1)"
    by (cases "try_block env file name w") auto
  from try_block_temp_file [OF t] assms(3) have tf: "tf = Some p" by simp
  from assms(1,2) t have e: "extract_text env file w = finally_clause env tf (except_clause r) w1"
    by (rule extract_text_named)
  from t tf have "events w1 = events w @ [Created p] \<or> events w1 = events w @ [Created p, Converted p]"
    by (simp add: try_block_events)
  then have c: "count_list (events w1) (Unlinked p) = count_list (events w) (Unlinked p)"
    by auto
  show ?thesis
    using k unfolding e t tf using c by (auto simp: finally_events finally_files)
qed

text \<open>
  C1, the amended theorem at the upload of \<open>note.txt\<close>: in the plain environment one
  deletion attempt, and the file is gone.
\<close>

theorem cleanup_of_created_file_witness:
  "count_list (events (snd (extract_text env_plain note_upload empty_world))) (Unlinked tmp_txt) = 1
   \<and> files (snd (extract_text env_plain note_upload empty_world)) tmp_txt = None"
proof -
  have h: "named_temporary_file env_plain (path_suffix ''note.txt'') = Inr tmp_txt"
    by (simp add: env_defs suffix_note tmp_txt_def)
  have x: "exists_exn env_plain tmp_txt = None" "unlink_exn env_plain tmp_txt = None"
    by (simp_all add: env_defs)
  have y: "events empty_world = []" by (simp add: empty_world_def)
  from cleanup_of_created_file [OF note_named h, of empty_world] show ?thesis
    by (simp add: try_plain x y)
qed

subsection \<open>C2: a failing deletion\<close>

text \<open>
  C2, as stated: the response is unchanged by a failure of the deletion. The two
  environments below differ in \<open>os.unlink\<close> only; the upload of \<open>note.txt\<close> is answered
  with the result in one and with the exception of \<open>os.unlink\<close> in the other.
\<close>

theorem response_changed_by_failed_unlink:
  "fst (extract_text env_plain note_upload empty_world) = Return note_result
   \<and> fst (extract_text env_unlink_denied note_upload empty_world) =
       Raised ''[Errno 13] Permission denied''"
  by (simp add: run_plain run_unlink_denied)

text \<open>
  C2, amended: the \<open>finally\<close> clause has no handler of its own, so a failure of the cleanup
  is surfaced. If \<open>exists()\<close> returns, the temporary file is there and \<open>os.unlink\<close> raises,
  that exception leaves the handler in place of the pending result or \<open>HTTPException\<close>; so
  does an exception of \<open>exists()\<close>. The response is the pending one whenever the cleanup
  raises nothing: no temporary file was created, or \<open>exists()\<close> returns and either finds
  no file or the deletion succeeds.
\<close>

theorem unlink_failure_propagates:
  assumes "filename file = Some name" and "name \<noteq> []"
    and "try_block env file name w = (tf, r, w1)"
  shows "(tf = Some p \<and> exists_exn env p = None \<and> files w1 p \<noteq> None \<and> unlink_exn env p = Some e \<longrightarrow>
            fst (extract_text env file w) = Raised e)
       \<and> (tf = Some p \<and> exists_exn env p = Some e \<longrightarrow>
            fst (extract_text env file w) = Raised e)
       \<and> ((\<forall>q. tf = Some q \<longrightarrow>
               exists_exn env q = None \<and> (files w1 q \<noteq> None \<longrightarrow> unlink_exn env q = None)) \<longrightarrow>
            fst (extract_text env file w) = except_clause r)"
proof -
  from assms have e: "extract_text env file w = finally_clause env tf (except_clause r) w1"
    by (rule extract_text_named)
  show ?thesis unfolding e by (auto simp: finally_response split: option.splits)
qed

text \<open>
  C2, the amended theorem at three inputs: a deletion that fails surfaces, an \<open>exists()\<close>
  that fails surfaces, and a cleanup that raises nothing leaves the pending error response
  as it is.
\<close>

theorem unlink_failure_propagates_witness:
  "fst (extract_text env_unlink_denied note_upload empty_world) =
     Raised ''[Errno 13] Permission denied''
   \<and> fst (extract_text env_stat_denied note_upload empty_world) =
       Raised ''[Errno 13] Permission denied''
   \<and> fst (extract_text env_engine_fails note_upload empty_world) =
       HTTPException 500 ''Error processing document: File format not allowed''"
  using unlink_failure_propagates [OF note_named try_unlink_denied,
      of tmp_txt "''[Errno 13] Permission denied''"]
    unlink_failure_propagates [OF note_named try_stat_denied,
      of tmp_txt "''[Errno 13] Permission denied''"]
    unlink_failure_propagates [OF note_named try_engine_fails, of tmp_txt "[]"]
  by (simp add: env_defs env_unlink_denied_def env_stat_denied_def env_engine_fails_def
      except_clause_def)

subsection \<open>C3: a missing file name\<close>

text \<open>
  C3: when the file name of the upload is missing or empty, the handler raises
  \<open>HTTPException(status_code=400, detail="No file provided")\<close>, which FastAPI renders as the
  body \<open>{"detail": "No file provided"}\<close>, and the world is the one it started in: no
  temporary file is created and the converter is not called.
\<close>

theorem missing_filename_rejected:
  "filename file = None \<or> filename file = Some [] \<Longrightarrow>
     extract_text env file w = (HTTPException 400 ''No file provided'', w)"
  by (auto simp: extract_text_def)

text \<open>C3 at an upload with the empty file name, in a world that has files and a trace.\<close>

theorem missing_filename_rejected_witness:
  "filename no_file_upload = Some []
   \<and> extract_text env_plain no_file_upload busy_world =
       (HTTPException 400 ''No file provided'', busy_world)"
proof -
  have h: "filename no_file_upload = None \<or> filename no_file_upload = Some []"
    by (simp add: no_file_upload_def)
  from missing_filename_rejected [OF h, of env_plain busy_world] show ?thesis
    by (simp add: no_file_upload_def)
qed

subsection \<open>C4: translation of exceptions\<close>

text \<open>
  C4, as stated: an exception of the \<open>try\<close> block always becomes the response
  \<open>HTTPException(500, "Error processing document: " + str(e))\<close>. Here the conversion
  raises, the \<open>except\<close> clause translates, and \<open>os.unlink\<close> then raises in the \<open>finally\<close>
  clause: what leaves the handler is the exception of \<open>os.unlink\<close>.
\<close>

theorem translated_error_lost_to_failed_unlink:
  "fst (snd (try_block env_fails_twice note_upload ''note.txt'' empty_world)) =
     Inl ''File format not allowed''
   \<and> fst (extract_text env_fails_twice note_upload empty_world) =
       Raised ''[Errno 13] Permission denied''"
  by (simp add: try_fails_twice run_fails_twice)

text \<open>
  C4, amended: for every non-empty file name, let \<open>e\<close> be the exception with which a
  statement of the \<open>try\<close> block fails and which leaves the block: that of
  \<open>NamedTemporaryFile\<close>; or, the file being created, that of the close of the file, which
  replaces one of the \<open>with\<close> body; or that of the first to raise of the read, the write,
  the flush, the construction of the converter, the conversion and the export. It is
  translated by the one \<open>except\<close> clause into \<open>HTTPException\<close> with status 500 and detail
  \<open>"Error processing document: "\<close> followed by \<open>str(e)\<close>, and this is the response unless
  the cleanup in the \<open>finally\<close> clause raises, in \<open>exists()\<close> or in \<open>os.unlink\<close>; in no case is
  a dictionary returned.
\<close>

theorem exception_translated_to_500:
  assumes "filename file = Some name" and "name \<noteq> []"
    and raised:
      "named_temporary_file env (path_suffix name) = Inl e \<or>
       (\<exists>p. named_temporary_file env (path_suffix name) = Inr p \<and>
          (close_exn env = Some e \<or>
           close_exn env = None \<and>
             (read_exn env = Some e \<or>
              read_exn env = None \<and>
                (write_exn env = Some e \<or>
                 write_exn env = None \<and>
                   (flush_exn env = Some e \<or>
                    flush_exn env = None \<and>
                      (converter_exn env = Some e \<or>
                       converter_exn env = None \<and>
                         (fst (convert env p ((files w)(p \<mapsto> body file))) = Inl e \<or>
                          (\<exists>doc. fst (convert env p ((files w)(p \<mapsto> body file))) = Inr doc \<and>
                             export_to_markdown env doc = Inl e))))))))"
  shows "((\<forall>p. named_temporary_file env (path_suffix name) = Inr p \<longrightarrow>
             exists_exn env p = None \<and>
             (files (snd (snd (try_block env file name w))) p \<noteq> None \<longrightarrow> unlink_exn env p = None)) \<longrightarrow>
            fst (extract_text env file w) =
              HTTPException 500 (''Error processing document: '' @ e))
       \<and> (\<forall>d. fst (extract_text env file w) \<noteq> Return d)"
proof -
  from raised have "fst (snd (try_block env file name w)) = Inl e"
    by (simp only: try_block_raises_iff)
  then obtain tf w1 where t: "try_block env file name w = (tf, Inl e, w1)"
    by (cases "try_block env file name w") auto
  from assms(1,2) t
  have x: "extract_text env file w = finally_clause env tf (except_clause (Inl e)) w1"
    by (rule extract_text_named)
  have tf: "tf = Some q \<Longrightarrow> named_temporary_file env (path_suffix name) = Inr q" for q
    using try_block_temp_file [OF t] by (auto split: sum.splits)
  show ?thesis
    unfolding x t using tf
    by (auto simp: finally_response except_clause_def split: option.splits)
qed

text \<open>
  C4, the amended theorem at two inputs: the conversion raises, and \<open>NamedTemporaryFile\<close>
  raises for lack of space.
\<close>

theorem exception_translated_to_500_witness:
  "fst (extract_text env_engine_fails note_upload empty_world) =
     HTTPException 500 ''Error processing document: File format not allowed''
   \<and> fst (extract_text env_no_space note_upload empty_world) =
       HTTPException 500 ''Error processing document: [Errno 28] No space left on device''"
proof -
  have a: "named_temporary_file env_engine_fails (path_suffix ''note.txt'') = Inl ''File format not allowed'' \<or>
       (\<exists>p. named_temporary_file env_engine_fails (path_suffix ''note.txt'') = Inr p \<and>
          (close_exn env_engine_fails = Some ''File format not allowed'' \<or>
           close_exn env_engine_fails = None \<and>
             (read_exn env_engine_fails = Some ''File format not allowed'' \<or>
              read_exn env_engine_fails = None \<and>
                (write_exn env_engine_fails = Some ''File format not allowed'' \<or>
                 write_exn env_engine_fails = None \<and>
                   (flush_exn env_engine_fails = Some ''File format not allowed'' \<or>
                    flush_exn env_engine_fails = None \<and>
                      (converter_exn env_engine_fails = Some ''File format not allowed'' \<or>
                       converter_exn env_engine_fails = None \<and>
                         (fst (convert env_engine_fails p ((files empty_world)(p \<mapsto> body note_upload))) =
                            Inl ''File format not allowed'' \<or>
                          (\<exists>doc. fst (convert env_engine_fails p ((files empty_world)(p \<mapsto> body note_upload))) =
                                   Inr doc \<and>
                             export_to_markdown env_engine_fails doc = Inl ''File format not allowed''))))))))"
    by (simp add: env_defs env_engine_fails_def)
  have a': "\<forall>p. named_temporary_file env_engine_fails (path_suffix ''note.txt'') = Inr p \<longrightarrow>
             exists_exn env_engine_fails p = None \<and>
             (files (snd (snd (try_block env_engine_fails note_upload ''note.txt'' empty_world))) p \<noteq> None \<longrightarrow>
                unlink_exn env_engine_fails p = None)"
    by (simp add: env_defs env_engine_fails_def)
  have b: "named_temporary_file env_no_space (path_suffix ''note.txt'') =
             Inl ''[Errno 28] No space left on device''"
    by (simp add: env_defs env_no_space_def)
  have b': "\<forall>p. named_temporary_file env_no_space (path_suffix ''note.txt'') = Inr p \<longrightarrow>
             exists_exn env_no_space p = None \<and>
             (files (snd (snd (try_block env_no_space note_upload ''note.txt'' empty_world))) p \<noteq> None \<longrightarrow>
                unlink_exn env_no_space p = None)"
    by (simp add: env_defs env_no_space_def)
  from exception_translated_to_500 [OF note_named a] a'
  have 1: "fst (extract_text env_engine_fails note_upload empty_world) =
             HTTPException 500 (''Error processing document: '' @ ''File format not allowed'')"
    by blast
  from exception_translated_to_500 [where w = empty_world, OF note_named disjI1 [OF b]] b'
  have 2: "fst (extract_text env_no_space note_upload empty_world) =
             HTTPException 500 (''Error processing document: '' @ ''[Errno 28] No space left on device'')"
    by blast
  from 1 2 show ?thesis by simp
qed

subsection \<open>C5: the suffix of the temporary file\<close>

text \<open>
  C5, as stated: the suffix is everything from the last dot of the file name onward.
  \<open>Path(name).suffix\<close> is empty for a name that only begins with a dot; it looks at the
  final component of the name only, so a dot in a directory part does not count; and (in
  \<open>pathlib\<close> up to Python 3.13) it is empty for a name that ends in a dot.
\<close>

theorem suffix_differs_from_last_dot:
  "path_suffix ''.bashrc'' = [] \<and> spec_suffix ''.bashrc'' = ''.bashrc''
   \<and> path_suffix ''v1.2/README'' = [] \<and> spec_suffix ''v1.2/README'' = ''.2/README''
   \<and> path_suffix ''report.'' = [] \<and> spec_suffix ''report.'' = ''.''"
  by (simp add: path_suffix_def path_name_def path_parts_def spec_suffix_def Let_def)

text \<open>
  C5, amended: the suffix that the handler passes to \<open>NamedTemporaryFile\<close>, for every
  non-empty file name, is \<open>Path(name).suffix\<close> of \<open>pathlib\<close> up to Python 3.13. It is
  taken from the final path component of the file name: the last of the pieces between
  \<open>'/'\<close> that is neither empty nor \<open>'.'\<close> (the whole name when it has no \<open>'/'\<close> and is not
  \<open>'.'\<close>; what follows the last \<open>'/'\<close> otherwise, a trailing \<open>'/'\<close> or \<open>'/.'\<close> being
  skipped). It is everything from the last dot of that component onward, the dot
  included, when that dot is neither the first nor the last character of the component;
  it is empty otherwise, that is when the component has no dot, when its last dot leads
  it, or when it ends in a dot. The one file that the handler creates is the one that
  \<open>NamedTemporaryFile\<close> yields for this suffix.
\<close>

theorem suffix_of_final_component:
  "path_suffix fn =
     (let n = path_name fn; s = spec_suffix n in if length s < 2 \<or> s = n then [] else s)
   \<and> (CHR ''/'' \<notin> set fn \<and> fn \<noteq> ''.'' \<longrightarrow> path_name fn = fn)
   \<and> (CHR ''/'' \<notin> set c \<and> c \<noteq> [] \<and> c \<noteq> ''.'' \<longrightarrow> path_name (dir @ CHR ''/'' # c) = c)
   \<and> path_name (dir @ ''/'') = path_name dir
   \<and> path_name (dir @ ''/.'') = path_name dir
   \<and> path_name ''.'' = []
   \<and> (filename upl = Some name \<and> name \<noteq> [] \<longrightarrow>
        (Created p \<in> set (drop (length (events w)) (events (snd (extract_text env upl w)))) \<longleftrightarrow>
         named_temporary_file env (path_suffix name) = Inr p))"
  using path_suffix_last_dot [of fn] path_name_simple [of fn]
    path_name_last_component [of c dir] path_name_trailing_sep [of dir]
    path_name_trailing_dot [of dir] path_name_dot created_iff [of upl name p w env]
  by simp

text \<open>
  C5, the amended theorem at a name with a dot in its directory part and two dots in its
  final component: the suffix is the last extension of the final component, and the
  temporary file that the handler creates carries it. At a name whose only dot leads it,
  and at one that ends in a dot, the suffix is empty.
\<close>

theorem suffix_of_final_component_witness:
  "path_name ''v1.2/archive.tar.gz'' = ''archive.tar.gz''
   \<and> path_suffix ''v1.2/archive.tar.gz'' = ''.gz''
   \<and> Created ''/tmp/tmpk3_x9a2b.gz'' \<in> set (events (snd (extract_text env_plain archive_upload empty_world)))
   \<and> path_suffix ''.bashrc'' = []
   \<and> path_suffix ''report.'' = []"
proof -
  from suffix_of_final_component [where fn = "''.bashrc''" and dir = "[]" and c = "[]"
      and upl = archive_upload and name = "[]" and env = env_plain and w = empty_world and p = "[]"]
  have d: "path_suffix ''.bashrc'' = []" by (simp add: spec_suffix_def)
  from suffix_of_final_component [where fn = "''report.''" and dir = "[]" and c = "[]"
      and upl = archive_upload and name = "[]" and env = env_plain and w = empty_world and p = "[]"]
  have r: "path_suffix ''report.'' = []" by (simp add: spec_suffix_def)
  note t = suffix_of_final_component [where fn = "''v1.2/archive.tar.gz''" and dir = "''v1.2''"
      and c = "''archive.tar.gz''" and upl = archive_upload and name = "''v1.2/archive.tar.gz''"
      and env = env_plain and w = empty_world and p = "''/tmp/tmpk3_x9a2b.gz''"]
  from t have n: "path_name ''v1.2/archive.tar.gz'' = ''archive.tar.gz''" by simp
  from t n have s: "path_suffix ''v1.2/archive.tar.gz'' = ''.gz''"
    by (simp add: spec_suffix_def)
  have f: "filename archive_upload = Some ''v1.2/archive.tar.gz''"
    by (simp add: archive_upload_def)
  have m: "named_temporary_file env_plain ''.gz'' = Inr ''/tmp/tmpk3_x9a2b.gz''"
    by (simp add: env_defs)
  from t f s m
  have "Created ''/tmp/tmpk3_x9a2b.gz'' \<in>
          set (drop (length (events empty_world)) (events (snd (extract_text env_plain archive_upload empty_world))))"
    by simp
  then have "Created ''/tmp/tmpk3_x9a2b.gz'' \<in> set (events (snd (extract_text env_plain archive_upload empty_world)))"
    by (rule in_set_dropD)
  with n s d r show ?thesis by simp
qed

subsection \<open>C6: the result of a successful conversion\<close>

text \<open>
  C6, as stated: whenever the conversion succeeds, the handler returns the result. Here
  the conversion and the export succeed, and the handler ends with the exception that
  \<open>os.unlink\<close> raises in the \<open>finally\<close> clause instead.
\<close>

theorem result_lost_to_failed_unlink:
  "fst (convert env_unlink_denied tmp_txt [tmp_txt \<mapsto> ''hello'']) = Inr ''hello''
   \<and> export_to_markdown env_unlink_denied ''hello'' = Inr ''hello''
   \<and> fst (extract_text env_unlink_denied note_upload empty_world) \<noteq> Return note_result"
  unfolding run_unlink_denied by (simp add: env_defs env_unlink_denied_def)

text \<open>
  C6, amended: for every request with a non-empty file name whose upload is stored in the
  temporary file and on which the conversion and the export succeed, the handler returns
  the dictionary whose \<open>filename\<close> is the file name of the upload, whose \<open>content_type\<close> is
  the declared content type (\<open>null\<close> when absent), whose \<open>text\<close> is the exported markdown and
  whose \<open>success\<close> is true, provided the cleanup in the \<open>finally\<close> clause does not raise:
  \<open>exists()\<close> returns, and \<open>os.unlink\<close>, called when the file is still there, succeeds.
\<close>

theorem success_result:
  assumes "filename file = Some name" and "name \<noteq> []"
    and "named_temporary_file env (path_suffix name) = Inr p"
    and "read_exn env = None" and "write_exn env = None" and "flush_exn env = None"
    and "close_exn env = None" and "converter_exn env = None"
    and "convert env p ((files w)(p \<mapsto> body file)) = (Inr doc, fs)"
    and "export_to_markdown env doc = Inr text_content"
    and "exists_exn env p = None"
    and "fs p \<noteq> None \<longrightarrow> unlink_exn env p = None"
  shows "fst (extract_text env file w) =
           Return [(''filename'', JStr name),
                   (''content_type'', (case content_type file of None \<Rightarrow> JNull | Some c \<Rightarrow> JStr c)),
                   (''text'', JStr text_content),
                   (''success'', JBool True)]"
proof -
  let ?d = "[(''filename'', JStr name),
             (''content_type'', (case content_type file of None \<Rightarrow> JNull | Some c \<Rightarrow> JStr c)),
             (''text'', JStr text_content),
             (''success'', JBool True)]"
  let ?w = "w\<lparr>files := fs, events := events w @ [Created p, Converted p]\<rparr>"
  from assms have t: "try_block env file name w = (Some p, Inr ?d, ?w)"
    by (simp add: try_defs Let_def)
  from assms(1,2) t
  have e: "extract_text env file w = finally_clause env (Some p) (except_clause (Inr ?d)) ?w"
    by (rule extract_text_named)
  show ?thesis
    unfolding e using assms(11,12) by (auto simp: finally_response except_clause_def)
qed

text \<open>C6, the amended theorem at scenario A of the specification.\<close>

theorem success_result_witness:
  "fst (extract_text env_plain note_upload empty_world) = Return note_result"
proof -
  have h: "named_temporary_file env_plain (path_suffix ''note.txt'') = Inr tmp_txt"
    "read_exn env_plain = None" "write_exn env_plain = None" "flush_exn env_plain = None"
    "close_exn env_plain = None" "converter_exn env_plain = None"
    "convert env_plain tmp_txt ((files empty_world)(tmp_txt \<mapsto> body note_upload)) =
       (Inr ''hello'', (files empty_world)(tmp_txt \<mapsto> body note_upload))"
    "export_to_markdown env_plain ''hello'' = Inr ''hello''"
    "exists_exn env_plain tmp_txt = None"
    "((files empty_world)(tmp_txt \<mapsto> body note_upload)) tmp_txt \<noteq> None \<longrightarrow>
       unlink_exn env_plain tmp_txt = None"
    by (simp_all add: env_defs suffix_note tmp_txt_def note_upload_def)
  from success_result [OF note_named h] show ?thesis
    by (simp add: note_result_def note_upload_def)
qed

subsection \<open>C7: the same upload twice\<close>

text \<open>
  C7: two calls with the same upload, in any two worlds and with any two names for the
  temporary file, return the same text (indeed the same dictionary) whenever both return,
  if the conversion is one function \<open>engine\<close> of the contents of the file and of the suffix
  of its path, and the export is the same function in both calls. The temporary file
  carries the suffix asked for, as \<open>tempfile\<close> promises and \<open>temp_name_keeps_suffix\<close> shows
  for the names that \<open>tempfile\<close> makes.
\<close>

theorem same_upload_same_text:
  assumes name: "filename file = Some name"
    and det1: "\<forall>p fs. fst (convert env1 p fs) = engine (fs p) (path_suffix p)"
    and det2: "\<forall>p fs. fst (convert env2 p fs) = engine (fs p) (path_suffix p)"
    and exp: "export_to_markdown env1 = export_to_markdown env2"
    and tmp1: "\<forall>p. named_temporary_file env1 (path_suffix name) = Inr p \<longrightarrow>
                 path_suffix p = path_suffix name"
    and tmp2: "\<forall>p. named_temporary_file env2 (path_suffix name) = Inr p \<longrightarrow>
                 path_suffix p = path_suffix name"
    and r1: "extract_text env1 file wa = (Return d1, wa')"
    and r2: "extract_text env2 file wb = (Return d2, wb')"
  shows "map_of d1 ''text'' = map_of d2 ''text'' \<and> d1 = d2"
proof -
  from r1 name obtain tf1 w1 where t1: "try_block env1 file name wa = (tf1, Inr d1, w1)"
    using returned_from_try by fastforce
  from r2 name obtain tf2 w2 where t2: "try_block env2 file name wb = (tf2, Inr d2, w2)"
    using returned_from_try by fastforce
  from try_block_text [OF t1] obtain p1 doc1 x1 where
    a: "named_temporary_file env1 (path_suffix name) = Inr p1"
       "fst (convert env1 p1 ((files wa)(p1 \<mapsto> body file))) = Inr doc1"
       "export_to_markdown env1 doc1 = Inr x1"
       "d1 = [(''filename'', JStr name),
              (''content_type'', (case content_type file of None \<Rightarrow> JNull | Some c \<Rightarrow> JStr c)),
              (''text'', JStr x1), (''success'', JBool True)]"
    by blast
  from try_block_text [OF t2] obtain p2 doc2 x2 where
    b: "named_temporary_file env2 (path_suffix name) = Inr p2"
       "fst (convert env2 p2 ((files wb)(p2 \<mapsto> body file))) = Inr doc2"
       "export_to_markdown env2 doc2 = Inr x2"
       "d2 = [(''filename'', JStr name),
              (''content_type'', (case content_type file of None \<Rightarrow> JNull | Some c \<Rightarrow> JStr c)),
              (''text'', JStr x2), (''success'', JBool True)]"
    by blast
  from a(1) tmp1 have s1: "path_suffix p1 = path_suffix name" by simp
  from b(1) tmp2 have s2: "path_suffix p2 = path_suffix name" by simp
  from a(2) det1 s1 have "engine (Some (body file)) (path_suffix name) = Inr doc1" by simp
  moreover from b(2) det2 s2 have "engine (Some (body file)) (path_suffix name) = Inr doc2" by simp
  ultimately have "doc1 = doc2" by simp
  with a(3) b(3) exp have "x1 = x2" by simp
  with a(4) b(4) show ?thesis by simp
qed

text \<open>
  C7 at the upload of \<open>note.txt\<close>, once in the empty world and once in a world with other
  files, under another name for the temporary file in another directory.
\<close>

theorem same_upload_same_text_witness:
  "fst (extract_text env_plain note_upload empty_world) = Return note_result
   \<and> fst (extract_text env_other_dir note_upload busy_world) = Return note_result
   \<and> map_of note_result ''text'' = Some (JStr ''hello'')"
proof -
  have d1: "\<forall>p fs. fst (convert env_plain p fs) = plain_engine (fs p) (path_suffix p)"
    by (simp add: env_plain_def)
  have d2: "\<forall>p fs. fst (convert env_other_dir p fs) = plain_engine (fs p) (path_suffix p)"
    by (simp add: env_plain_def env_other_dir_def)
  have e: "export_to_markdown env_plain = export_to_markdown env_other_dir"
    by (simp add: env_plain_def env_other_dir_def)
  have t1: "\<forall>p. named_temporary_file env_plain (path_suffix ''note.txt'') = Inr p \<longrightarrow>
              path_suffix p = path_suffix ''note.txt''"
    using temp_name_keeps_suffix [of "''tmpk3_x9a2b''" "''/tmp''" "''note.txt''"]
    by (auto simp: env_plain_def)
  have t2: "\<forall>p. named_temporary_file env_other_dir (path_suffix ''note.txt'') = Inr p \<longrightarrow>
              path_suffix p = path_suffix ''note.txt''"
    using temp_name_keeps_suffix [of "''tmp8n_q2zr7''" "''/var/tmp''" "''note.txt''"]
    by (auto simp: env_plain_def env_other_dir_def)
  from same_upload_same_text [OF note_named(1) d1 d2 e t1 t2 run_plain run_other_dir]
  show ?thesis by (simp add: run_plain run_other_dir note_result_def)
qed

subsection \<open>C8: the health check\<close>

text \<open>
  C8: \<open>health_check\<close> returns the constant dictionary
  \<open>{"status": "healthy", "service": "document-text-extraction"}\<close> in every world, it leaves
  the world as it is (no file is touched, no call is traced), and it never ends in an
  exception.
\<close>

theorem health_check_constant:
  "health_check w =
     (Return [(''status'', JStr ''healthy''), (''service'', JStr ''document-text-extraction'')], w)"
  by (simp add: health_check_def)

subsection \<open>C9: success is always true\<close>

text \<open>
  C9: a dictionary that \<open>extract_text\<close> returns has \<open>success\<close> equal to \<open>true\<close>; a failure is
  never reported through a returned dictionary.
\<close>

theorem returned_result_success_true:
  "extract_text env file w = (Return d, w') \<Longrightarrow> map_of d ''success'' = Some (JBool True)"
proof -
  assume "extract_text env file w = (Return d, w')"
  then obtain name tf w1 where "try_block env file name w = (tf, Inr d, w1)"
    using returned_from_try by blast
  from try_block_text [OF this] show ?thesis by auto
qed

text \<open>C9 at scenario A of the specification.\<close>

theorem returned_result_success_true_witness:
  "fst (extract_text env_plain note_upload empty_world) = Return note_result
   \<and> map_of note_result ''success'' = Some (JBool True)"
  using returned_result_success_true [OF run_plain] by (simp add: run_plain)

subsection \<open>C10: when the deletion is attempted\<close>

text \<open>
  C10: no call is traced, so no deletion is attempted, when the file name is missing or
  empty or when \<open>NamedTemporaryFile\<close> raised; and every deletion that the handler attempts
  is on the path \<open>q\<close> of the temporary file that this request created, which exists in the
  world \<open>w1\<close> in which the \<open>finally\<close> clause runs.
\<close>

theorem unlink_only_existing_temp_file:
  assumes "extract_text env file w = (resp, w')"
  shows "(filename file = None \<or> filename file = Some [] \<longrightarrow> events w' = events w)
       \<and> (\<forall>name e. filename file = Some name \<and>
             named_temporary_file env (path_suffix name) = Inl e \<longrightarrow> events w' = events w)
       \<and> (\<forall>q. Unlinked q \<in> set (drop (length (events w)) (events w')) \<longrightarrow>
             (\<exists>name r w1. filename file = Some name \<and> name \<noteq> [] \<and>
                named_temporary_file env (path_suffix name) = Inr q \<and>
                try_block env file name w = (Some q, r, w1) \<and> files w1 q \<noteq> None))"
proof (cases "filename file = None \<or> filename file = Some []")
  case True
  with assms have "w' = w" by (auto simp: extract_text_def)
  with True show ?thesis by auto
next
  case False
  then obtain name where n: "filename file = Some name" "name \<noteq> []" by auto
  obtain tf r w1 where t: "try_block env file name w = (tf, r, w1)"
    by (cases "try_block env file name w") auto
  from assms n t have f: "finally_clause env tf (except_clause r) w1 = (resp, w')"
    by (simp add: extract_text_named)
  note ev = finally_events_new [OF f]
  show ?thesis
  proof (cases "named_temporary_file env (path_suffix name)")
    case (Inl e)
    with t have "tf = None" "w1 = w" by (simp_all add: try_block_def)
    with ev n Inl show ?thesis by simp
  next
    case (Inr p)
    with try_block_temp_file [OF t] have tf: "tf = Some p" by simp
    from t tf have "events w1 = events w @ [Created p] \<or> events w1 = events w @ [Created p, Converted p]"
      by (simp add: try_block_events)
    with ev tf
    have "\<forall>q. Unlinked q \<in> set (drop (length (events w)) (events w')) \<longrightarrow>
            q = p \<and> files w1 p \<noteq> None"
      by (auto split: if_splits)
    with n t tf Inr show ?thesis by auto
  qed
qed

text \<open>
  C10 at three requests: one without a file name, one for which no temporary file could
  be created, and scenario A, whose one deletion is on the file that holds the upload.
\<close>

theorem unlink_only_existing_temp_file_witness:
  "events (snd (extract_text env_plain no_file_upload busy_world)) = events busy_world
   \<and> events (snd (extract_text env_no_space note_upload empty_world)) = events empty_world
   \<and> Unlinked tmp_txt \<in> set (events (snd (extract_text env_plain note_upload empty_world)))
   \<and> files (snd (snd (try_block env_plain note_upload ''note.txt'' empty_world))) tmp_txt =
       Some ''hello''"
proof -
  have a: "extract_text env_plain no_file_upload busy_world =
             (fst (extract_text env_plain no_file_upload busy_world),
              snd (extract_text env_plain no_file_upload busy_world))"
    by simp
  have b: "extract_text env_no_space note_upload empty_world =
             (fst (extract_text env_no_space note_upload empty_world),
              snd (extract_text env_no_space note_upload empty_world))"
    by simp
  have na: "filename no_file_upload = None \<or> filename no_file_upload = Some []"
    by (simp add: no_file_upload_def)
  have nb: "filename note_upload = Some ''note.txt'' \<and>
            named_temporary_file env_no_space (path_suffix ''note.txt'') =
              Inl ''[Errno 28] No space left on device''"
    by (simp add: note_upload_def env_defs env_no_space_def)
  have nc: "Unlinked tmp_txt \<in> set (drop (length (events empty_world))
              (events \<lparr>files = Map.empty,
                       events = [Created tmp_txt, Converted tmp_txt, Unlinked tmp_txt]\<rparr>))"
    by (simp add: empty_world_def)
  from unlink_only_existing_temp_file [OF a] na
  have 1: "events (snd (extract_text env_plain no_file_upload busy_world)) = events busy_world"
    by blast
  from unlink_only_existing_temp_file [OF b] nb
  have 2: "events (snd (extract_text env_no_space note_upload empty_world)) = events empty_world"
    by blast
  from unlink_only_existing_temp_file [OF run_plain] nc
  obtain name r w1 where c: "filename note_upload = Some name"
      "try_block env_plain note_upload name empty_world = (Some tmp_txt, r, w1)"
      "files w1 tmp_txt \<noteq> None"
    by blast
  from c(1) have "name = ''note.txt''" by (simp add: note_upload_def)
  with c(2,3)
  have 3: "files (snd (snd (try_block env_plain note_upload ''note.txt'' empty_world))) tmp_txt \<noteq> None"
    by simp
  from 1 2 3 show ?thesis by (simp add: run_plain try_plain)
qed

end
